theory Spec2Isabelle
  imports Main
begin

section \<open>Go values shared by both programs of the repository\<close>

text \<open>
  The repository holds two programs for the same endpoint \<^verbatim>\<open>/save-data\<close>: the original
  server of \<^verbatim>\<open>main.go\<close> and the refactored server (\<^verbatim>\<open>solution.go\<close>, carried in the README
  bundle). Both are embedded here, method \<^verbatim>\<open>T.m\<close> of the source as \<open>T_m\<close>.

  A Go \<^verbatim>\<open>string\<close> and a \<^verbatim>\<open>[]byte\<close> are byte sequences: \<^typ>\<open>string\<close>, whose characters are
  bytes. A nil and an empty \<^verbatim>\<open>[]byte\<close> both have length 0 and are both the empty list.
\<close>

subsection \<open>Errors\<close>

text \<open>
  \<^verbatim>\<open>fmt.Errorf\<close> without \<^verbatim>\<open>%w\<close> and the errors of the operating system carry a message
  only; \<^verbatim>\<open>fmt.Errorf("...: %w", err)\<close> builds a value that holds the formatted message and
  the wrapped error. \<^verbatim>\<open>err.Error()\<close> is the message.
\<close>

datatype go_error = ErrorString string | WrapError string go_error

fun Error :: "go_error \<Rightarrow> string" where
  "Error (ErrorString s) = s"
| "Error (WrapError msg err) = msg"

fun Unwrap :: "go_error \<Rightarrow> go_error option" where
  "Unwrap (ErrorString s) = None"
| "Unwrap (WrapError msg err) = Some err"

definition Errorf_w :: "string \<Rightarrow> go_error \<Rightarrow> go_error" where
  \<comment> \<open>\<^verbatim>\<open>fmt.Errorf(prefix + "%w", err)\<close>\<close>
  "Errorf_w prefix err = WrapError (prefix @ Error err) err"

subsection \<open>The world outside the handler\<close>

text \<open>
  A \<^verbatim>\<open>*DatabaseConnection\<close> is an address; the objects live in \<open>heap\<close>, so that the factory,
  every \<^verbatim>\<open>DatabaseStorage\<close> and the server share one connection object, as the pointers of
  the source do. The nil pointer is \<open>None\<close> where the source tests for it
  (\<^verbatim>\<open>f.database == nil\<close>); the other pointers are set by the constructors and are never nil.

  \<open>brk\<close> is the next address \<^verbatim>\<open>&DatabaseConnection{...}\<close> allocates.
  \<^verbatim>\<open>main.go\<close> has a connection type of its own, \<^verbatim>\<open>Database\<close>, which it never shares.

  \<open>files\<close> is the file system (path to content), \<open>stdout\<close> the lines printed so far.
  Whether the operating system lets a file be created or written is not decided by the
  program: \<open>create_fault\<close> gives the error of \<^verbatim>\<open>os.Create\<close> on a path, if any, and
  \<open>write_fault\<close> the number of bytes a failing \<^verbatim>\<open>Write\<close> still stores and its error.
\<close>

record Database =
  Host :: string
  Port :: int
  Username :: string
  Password :: string
  DBName :: string

record DatabaseConnection =
  Host :: string
  Port :: int
  Username :: string
  Password :: string
  DBName :: string
  connected :: bool

type_synonym addr = nat

record world =
  files :: "string \<rightharpoonup> string"
  heap :: "addr \<Rightarrow> DatabaseConnection"
  stdout :: "string list"
  brk :: addr
  create_fault :: "string \<Rightarrow> go_error option"
  write_fault :: "(nat \<times> go_error) option"

definition Println :: "string \<Rightarrow> world \<Rightarrow> world" where
  "Println s w = w\<lparr>stdout := stdout w @ [s @ ''\<newline>'']\<rparr>"

definition Print :: "string \<Rightarrow> world \<Rightarrow> world" where
  \<comment> \<open>\<^verbatim>\<open>fmt.Printf\<close> with the format already filled in\<close>
  "Print s w = w\<lparr>stdout := stdout w @ [s]\<rparr>"

definition os_Create :: "string \<Rightarrow> world \<Rightarrow> (go_error + string) \<times> world" where
  \<comment> \<open>creates the file or truncates it; the handle is the path\<close>
  "os_Create name w =
     (case create_fault w name of
        Some err \<Rightarrow> (Inl err, w)
      | None \<Rightarrow> (Inr name, w\<lparr>files := (files w)(name \<mapsto> [])\<rparr>))"

definition file_content :: "world \<Rightarrow> string \<Rightarrow> string" where
  "file_content w name = (case files w name of None \<Rightarrow> [] | Some old \<Rightarrow> old)"

definition file_Write :: "string \<Rightarrow> string \<Rightarrow> world \<Rightarrow> go_error option \<times> world" where
  \<comment> \<open>appends at the end of what the handle has written so far\<close>
  "file_Write file data w =
     (case write_fault w of
        Some (n, err) \<Rightarrow>
          (Some err, w\<lparr>files := (files w)(file \<mapsto> file_content w file @ take n data)\<rparr>)
      | None \<Rightarrow>
          (None, w\<lparr>files := (files w)(file \<mapsto> file_content w file @ data)\<rparr>))"

fun itoa_nat :: "nat \<Rightarrow> string" where
  "itoa_nat n =
     (if n < 10 then [''0123456789'' ! n]
      else itoa_nat (n div 10) @ [''0123456789'' ! (n mod 10)])"

definition itoa :: "int \<Rightarrow> string" where
  \<comment> \<open>the verb \<^verbatim>\<open>%d\<close>\<close>
  "itoa i = (if i < 0 then CHR ''-'' # itoa_nat (nat (- i)) else itoa_nat (nat i))"

subsection \<open>Requests and responses\<close>

text \<open>
  Of a \<^verbatim>\<open>*http.Request\<close> the handlers read the method and the body; \<open>Body\<close> is what
  \<^verbatim>\<open>io.ReadAll(r.Body)\<close> returns, the bytes or the error of the read. Of the
  \<^verbatim>\<open>http.ResponseWriter\<close> the model keeps what the handler writes: the status, the headers
  it sets and the body. \<^verbatim>\<open>http.Error\<close> sets two headers and prints the message with a
  newline.
\<close>

record http_Request =
  Method :: string
  Body :: "go_error + string"

record http_Response =
  status :: nat
  header :: "(string \<times> string) list"
  resp_body :: string

definition MethodPost :: string where
  "MethodPost = ''POST''"

definition StatusOK :: nat where
  "StatusOK = 200"

definition StatusBadRequest :: nat where
  "StatusBadRequest = 400"

definition StatusMethodNotAllowed :: nat where
  "StatusMethodNotAllowed = 405"

definition StatusInternalServerError :: nat where
  "StatusInternalServerError = 500"

definition http_Error :: "string \<Rightarrow> nat \<Rightarrow> http_Response" where
  "http_Error msg code =
     \<lparr>status = code,
      header = [(''Content-Type'', ''text/plain; charset=utf-8''),
                (''X-Content-Type-Options'', ''nosniff'')],
      resp_body = msg @ ''\<newline>''\<rparr>"

subsection \<open>The standard library's JSON decoder, for the target type \<^verbatim>\<open>SaveRequest\<close>\<close>

text \<open>
  \<^verbatim>\<open>json.Unmarshal(body, &req)\<close> belongs to Go's standard library, not to the repository.
  It is modelled as the library documents it: the whole input is checked against the
  JSON grammar first; then the members of the top-level object are assigned, in the order
  of the input, to the fields whose \<^verbatim>\<open>json\<close> tag equals the key under case folding; a JSON
  string for a \<^verbatim>\<open>[]byte\<close> field is base64 (standard alphabet, padded), an array for it is
  a list of numbers 0..255; unknown keys are skipped; a value of the wrong type is recorded
  as an error and decoding goes on; the first recorded error is returned.
\<close>

datatype json =
  JNull | JBool bool | JNumber string | JString string
| JArray "json list" | JObject "(string \<times> json) list"

datatype json_error = SyntaxError | UnmarshalTypeError | CorruptInputError

definition byte :: "char \<Rightarrow> nat" where
  "byte c = of_char c"

definition is_space :: "char \<Rightarrow> bool" where
  "is_space c = (c = CHR '' '' \<or> c = CHR 0x09 \<or> c = CHR 0x0D \<or> c = CHR 0x0A)"

definition skip_space :: "string \<Rightarrow> string" where
  "skip_space cs = dropWhile is_space cs"

definition is_digit :: "char \<Rightarrow> bool" where
  "is_digit c = (48 \<le> byte c \<and> byte c \<le> 57)"

definition hex_val :: "char \<Rightarrow> nat option" where
  "hex_val c =
     (let b = byte c in
      if 48 \<le> b \<and> b \<le> 57 then Some (b - 48)
      else if 97 \<le> b \<and> b \<le> 102 then Some (b - 87)
      else if 65 \<le> b \<and> b \<le> 70 then Some (b - 55)
      else None)"

fun getu4 :: "string \<Rightarrow> nat option" where
  \<comment> \<open>the code unit of a leading \<^verbatim>\<open>\uXXXX\<close>, if the text starts with one\<close>
  "getu4 (bs # u # a # b # c # d # rest) =
     (if bs = CHR 0x5C \<and> u = CHR ''u'' then
        (case (hex_val a, hex_val b, hex_val c, hex_val d) of
           (Some x3, Some x2, Some x1, Some x0) \<Rightarrow> Some (((x3 * 16 + x2) * 16 + x1) * 16 + x0)
         | _ \<Rightarrow> None)
      else None)"
| "getu4 _ = None"

definition utf8_encode :: "nat \<Rightarrow> string" where
  "utf8_encode r =
     (if r < 0x80 then [char_of r]
      else if r < 0x800 then [char_of (0xC0 + r div 64), char_of (0x80 + r mod 64)]
      else if r < 0x10000 then
        [char_of (0xE0 + r div 4096), char_of (0x80 + (r div 64) mod 64), char_of (0x80 + r mod 64)]
      else
        [char_of (0xF0 + r div 262144), char_of (0x80 + (r div 4096) mod 64),
         char_of (0x80 + (r div 64) mod 64), char_of (0x80 + r mod 64)])"

definition replacement_char :: nat where
  "replacement_char = 0xFFFD"

definition simple_escape :: "char \<Rightarrow> char option" where
  "simple_escape c =
     (if c = CHR 0x22 \<or> c = CHR 0x5C \<or> c = CHR ''/'' then Some c
      else if c = CHR ''b'' then Some (CHR 0x08)
      else if c = CHR ''f'' then Some (CHR 0x0C)
      else if c = CHR ''n'' then Some (CHR 0x0A)
      else if c = CHR ''r'' then Some (CHR 0x0D)
      else if c = CHR ''t'' then Some (CHR 0x09)
      else None)"

fun scan_string :: "string \<Rightarrow> string \<Rightarrow> (string \<times> string) option" where
  \<comment> \<open>the text after an opening quote: the unescaped content and what follows the
      closing quote\<close>
  "scan_string acc [] = None"
| "scan_string acc (c # cs) =
     (if c = CHR 0x22 then Some (acc, cs)
      else if c = CHR 0x5C then
        (case cs of
           [] \<Rightarrow> None
         | e # cs1 \<Rightarrow>
             (if e = CHR ''u'' then
                (case getu4 (c # cs) of
                   None \<Rightarrow> None
                 | Some rr \<Rightarrow>
                     (let cs2 = drop 4 cs1 in
                      if 0xD800 \<le> rr \<and> rr < 0xE000 then
                        (case getu4 cs2 of
                           None \<Rightarrow> scan_string (acc @ utf8_encode replacement_char) cs2
                         | Some rr1 \<Rightarrow>
                             (if rr < 0xDC00 \<and> 0xDC00 \<le> rr1 \<and> rr1 < 0xE000
                              then scan_string
                                     (acc @ utf8_encode
                                        (0x10000 + (rr - 0xD800) * 1024 + (rr1 - 0xDC00)))
                                     (drop 6 cs2)
                              else scan_string (acc @ utf8_encode replacement_char) cs2))
                      else scan_string (acc @ utf8_encode rr) cs2))
              else
                (case simple_escape e of
                   None \<Rightarrow> None
                 | Some b \<Rightarrow> scan_string (acc @ [b]) cs1)))
      else if byte c < 0x20 then None
      else scan_string (acc @ [c]) cs)"

definition is_cont :: "char \<Rightarrow> bool" where
  "is_cont c = (0x80 \<le> byte c \<and> byte c \<le> 0xBF)"

fun rune_len :: "string \<Rightarrow> nat" where
  \<comment> \<open>the length of the well-formed UTF-8 sequence at the head, 0 if there is none\<close>
  "rune_len [] = 0"
| "rune_len (c # cs) =
     (let b = byte c in
      if b < 0x80 then 1
      else if 0xC2 \<le> b \<and> b \<le> 0xDF then
        (case cs of c1 # _ \<Rightarrow> if is_cont c1 then 2 else 0 | _ \<Rightarrow> 0)
      else if 0xE0 \<le> b \<and> b \<le> 0xEF then
        (case cs of
           c1 # c2 # _ \<Rightarrow>
             (if (if b = 0xE0 then 0xA0 else 0x80) \<le> byte c1
                 \<and> byte c1 \<le> (if b = 0xED then 0x9F else 0xBF) \<and> is_cont c2
              then 3 else 0)
         | _ \<Rightarrow> 0)
      else if 0xF0 \<le> b \<and> b \<le> 0xF4 then
        (case cs of
           c1 # c2 # c3 # _ \<Rightarrow>
             (if (if b = 0xF0 then 0x90 else 0x80) \<le> byte c1
                 \<and> byte c1 \<le> (if b = 0xF4 then 0x8F else 0xBF) \<and> is_cont c2 \<and> is_cont c3
              then 4 else 0)
         | _ \<Rightarrow> 0)
      else 0)"

fun valid_utf8 :: "string \<Rightarrow> string" where
  \<comment> \<open>every byte that starts no well-formed sequence becomes U+FFFD\<close>
  "valid_utf8 [] = []"
| "valid_utf8 (c # cs) =
     (let k = rune_len (c # cs) in
      if k = 0 then utf8_encode replacement_char @ valid_utf8 cs
      else c # take (k - 1) cs @ valid_utf8 (drop (k - 1) cs))"

definition unquote :: "string \<Rightarrow> (string \<times> string) option" where
  "unquote cs = map_option (\<lambda>(s, rest). (valid_utf8 s, rest)) (scan_string [] cs)"

definition scan_digits :: "string \<Rightarrow> (string \<times> string) option" where
  \<comment> \<open>one digit or more\<close>
  "scan_digits cs =
     (if takeWhile is_digit cs = [] then None
      else Some (takeWhile is_digit cs, dropWhile is_digit cs))"

definition scan_int :: "string \<Rightarrow> (string \<times> string) option" where
  "scan_int cs =
     (case cs of
        [] \<Rightarrow> None
      | c # rest \<Rightarrow> if c = CHR ''0'' then Some ([c], rest) else scan_digits cs)"

definition scan_frac :: "string \<Rightarrow> (string \<times> string) option" where
  "scan_frac cs =
     (case cs of
        [] \<Rightarrow> Some ([], cs)
      | c # rest \<Rightarrow>
          if c = CHR ''.'' then map_option (\<lambda>(ds, r). (c # ds, r)) (scan_digits rest)
          else Some ([], cs))"

definition scan_exp :: "string \<Rightarrow> (string \<times> string) option" where
  "scan_exp cs =
     (case cs of
        [] \<Rightarrow> Some ([], cs)
      | c # rest \<Rightarrow>
          if c = CHR ''e'' \<or> c = CHR ''E'' then
            (case rest of
               [] \<Rightarrow> None
             | s # rest1 \<Rightarrow>
                 if s = CHR ''+'' \<or> s = CHR ''-''
                 then map_option (\<lambda>(ds, r). (c # s # ds, r)) (scan_digits rest1)
                 else map_option (\<lambda>(ds, r). (c # ds, r)) (scan_digits rest))
          else Some ([], cs))"

definition scan_number :: "string \<Rightarrow> (string \<times> string) option" where
  "scan_number cs =
     (let (sign, cs0) = (case cs of
                           [] \<Rightarrow> ([], cs)
                         | c # rest \<Rightarrow> if c = CHR ''-'' then ([c], rest) else ([], cs))
      in case scan_int cs0 of
           None \<Rightarrow> None
         | Some (i, cs1) \<Rightarrow>
             (case scan_frac cs1 of
                None \<Rightarrow> None
              | Some (f, cs2) \<Rightarrow>
                  (case scan_exp cs2 of
                     None \<Rightarrow> None
                   | Some (e, cs3) \<Rightarrow> Some (sign @ i @ f @ e, cs3))))"

definition scan_literal :: "string \<Rightarrow> json \<Rightarrow> string \<Rightarrow> (json \<times> string) option" where
  "scan_literal lit v cs =
     (if take (length lit) cs = lit then Some (v, drop (length lit) cs) else None)"

definition maxNestingDepth :: nat where
  "maxNestingDepth = 10000"

text \<open>
  The parser descends with fuel, the nesting depth \<open>d\<close> counted as the library's scanner
  does; \<open>json_parse\<close> supplies more fuel than any input can use (each call but the first of
  a container consumes a byte before it calls again).
\<close>

fun parse_value :: "nat \<Rightarrow> nat \<Rightarrow> string \<Rightarrow> (json \<times> string) option"
and parse_elements :: "nat \<Rightarrow> nat \<Rightarrow> json list \<Rightarrow> string \<Rightarrow> (json \<times> string) option"
and parse_members ::
  "nat \<Rightarrow> nat \<Rightarrow> (string \<times> json) list \<Rightarrow> string \<Rightarrow> (json \<times> string) option"
where
  "parse_value 0 d cs = None"
| "parse_value (Suc n) d [] = None"
| "parse_value (Suc n) d (c # cs) =
     (if c = CHR ''{'' then
        (if maxNestingDepth \<le> d then None
         else (case skip_space cs of
                 [] \<Rightarrow> None
               | c1 # cs1 \<Rightarrow>
                   if c1 = CHR ''}'' then Some (JObject [], cs1)
                   else parse_members n (Suc d) [] (c1 # cs1)))
      else if c = CHR ''['' then
        (if maxNestingDepth \<le> d then None
         else (case skip_space cs of
                 [] \<Rightarrow> None
               | c1 # cs1 \<Rightarrow>
                   if c1 = CHR '']'' then Some (JArray [], cs1)
                   else parse_elements n (Suc d) [] (c1 # cs1)))
      else if c = CHR 0x22 then map_option (\<lambda>(s, rest). (JString s, rest)) (unquote cs)
      else if c = CHR ''-'' \<or> is_digit c then
        map_option (\<lambda>(s, rest). (JNumber s, rest)) (scan_number (c # cs))
      else if c = CHR ''t'' then scan_literal ''true'' (JBool True) (c # cs)
      else if c = CHR ''f'' then scan_literal ''false'' (JBool False) (c # cs)
      else if c = CHR ''n'' then scan_literal ''null'' JNull (c # cs)
      else None)"
| "parse_elements 0 d acc cs = None"
| "parse_elements (Suc n) d acc cs =
     (case parse_value n d cs of
        None \<Rightarrow> None
      | Some (v, rest) \<Rightarrow>
          (case skip_space rest of
             [] \<Rightarrow> None
           | c # rest1 \<Rightarrow>
               if c = CHR '','' then parse_elements n d (acc @ [v]) (skip_space rest1)
               else if c = CHR '']'' then Some (JArray (acc @ [v]), rest1)
               else None))"
| "parse_members 0 d acc cs = None"
| "parse_members (Suc n) d acc cs =
     (case cs of
        [] \<Rightarrow> None
      | q # cs0 \<Rightarrow>
          if q \<noteq> CHR 0x22 then None
          else
            (case unquote cs0 of
               None \<Rightarrow> None
             | Some (key, cs1) \<Rightarrow>
                 (case skip_space cs1 of
                    [] \<Rightarrow> None
                  | colon # cs2 \<Rightarrow>
                      if colon \<noteq> CHR '':'' then None
                      else
                        (case parse_value n d (skip_space cs2) of
                           None \<Rightarrow> None
                         | Some (v, rest) \<Rightarrow>
                             (case skip_space rest of
                                [] \<Rightarrow> None
                              | c # rest1 \<Rightarrow>
                                  if c = CHR '','' then
                                    parse_members n d (acc @ [(key, v)]) (skip_space rest1)
                                  else if c = CHR ''}'' then
                                    Some (JObject (acc @ [(key, v)]), rest1)
                                  else None)))))"

definition json_parse :: "string \<Rightarrow> json option" where
  "json_parse body =
     (case parse_value (2 * length body + 2) 0 (skip_space body) of
        None \<Rightarrow> None
      | Some (v, rest) \<Rightarrow> if skip_space rest = [] then Some v else None)"

definition b64_val :: "char \<Rightarrow> nat option" where
  "b64_val c =
     (let b = byte c in
      if 65 \<le> b \<and> b \<le> 90 then Some (b - 65)
      else if 97 \<le> b \<and> b \<le> 122 then Some (b - 71)
      else if 48 \<le> b \<and> b \<le> 57 then Some (b + 4)
      else if c = CHR ''+'' then Some 62
      else if c = CHR ''/'' then Some 63
      else None)"

fun b64_quanta :: "string \<Rightarrow> string option" where
  \<comment> \<open>groups of four; padding only in the last group, and nothing after it\<close>
  "b64_quanta [] = Some []"
| "b64_quanta (a # b # c # d # rest) =
     (case (b64_val a, b64_val b) of
        (Some x, Some y) \<Rightarrow>
          (if c = CHR ''='' then
             (if d = CHR ''='' \<and> rest = [] then Some [char_of (x * 4 + y div 16)] else None)
           else
             (case b64_val c of
                None \<Rightarrow> None
              | Some z \<Rightarrow>
                  (if d = CHR ''='' then
                     (if rest = []
                      then Some [char_of (x * 4 + y div 16), char_of ((y mod 16) * 16 + z div 4)]
                      else None)
                   else
                     (case b64_val d of
                        None \<Rightarrow> None
                      | Some v \<Rightarrow>
                          map_option
                            (\<lambda>out. [char_of (x * 4 + y div 16),
                                    char_of ((y mod 16) * 16 + z div 4),
                                    char_of ((z mod 4) * 64 + v)] @ out)
                            (b64_quanta rest)))))
      | _ \<Rightarrow> None)"
| "b64_quanta _ = None"

definition base64_Decode :: "string \<Rightarrow> string option" where
  \<comment> \<open>\<^verbatim>\<open>base64.StdEncoding\<close>: line breaks in the input are skipped\<close>
  "base64_Decode s = b64_quanta (filter (\<lambda>c. c \<noteq> CHR 0x0A \<and> c \<noteq> CHR 0x0D) s)"

fun foldName :: "string \<Rightarrow> string" where
  \<comment> \<open>upper case for ASCII letters; U+017F (long s) and U+212A (Kelvin sign) fold to
      \<^verbatim>\<open>S\<close> and \<^verbatim>\<open>K\<close>\<close>
  "foldName [] = []"
| "foldName (c # cs) =
     (if c = CHR 0xC5 \<and> take 1 cs = [CHR 0xBF] then CHR ''S'' # foldName (drop 1 cs)
      else if c = CHR 0xE2 \<and> take 2 cs = [CHR 0x84, CHR 0xAA] then CHR ''K'' # foldName (drop 2 cs)
      else (if 97 \<le> byte c \<and> byte c \<le> 122 then char_of (byte c - 32) else c) # foldName cs)"

datatype field = Field_data | Field_storage_type

definition find_field :: "string \<Rightarrow> field option" where
  \<comment> \<open>the field whose tag is \<^verbatim>\<open>json:"data"\<close> or \<^verbatim>\<open>json:"storage_type"\<close>\<close>
  "find_field key =
     (if foldName key = foldName ''data'' then Some Field_data
      else if foldName key = foldName ''storage_type'' then Some Field_storage_type
      else None)"

definition saveError :: "json_error option \<Rightarrow> json_error \<Rightarrow> json_error option" where
  \<comment> \<open>the first error is kept\<close>
  "saveError saved e = (case saved of None \<Rightarrow> Some e | Some e0 \<Rightarrow> Some e0)"

definition parse_uint8 :: "string \<Rightarrow> nat option" where
  \<comment> \<open>\<^verbatim>\<open>strconv.ParseUint\<close> on a number literal, then the range check for \<^verbatim>\<open>uint8\<close>\<close>
  "parse_uint8 lit =
     (if lit \<noteq> [] \<and> list_all is_digit lit
         \<and> foldl (\<lambda>a c. a * 10 + (byte c - 48)) 0 lit \<le> 255
      then Some (foldl (\<lambda>a c. a * 10 + (byte c - 48)) 0 lit)
      else None)"

definition slot :: "string \<Rightarrow> nat \<Rightarrow> string" where
  \<comment> \<open>the backing array grown, with zero bytes, to hold index \<open>i\<close>\<close>
  "slot bk i = bk @ replicate (Suc i - length bk) (CHR 0x00)"

text \<open>
  An array is decoded element by element into the slice the field holds, reusing its
  backing array \<open>bk\<close>: a number sets the element, \<^verbatim>\<open>null\<close> leaves it as it is (zero in
  fresh memory), anything else is a type error.
\<close>

fun decode_bytes ::
  "json list \<Rightarrow> nat \<Rightarrow> string \<Rightarrow> json_error option \<Rightarrow> string \<times> json_error option" where
  "decode_bytes [] i bk saved = (bk, saved)"
| "decode_bytes (e # es) i bk saved =
     (case e of
        JNull \<Rightarrow> decode_bytes es (Suc i) (slot bk i) saved
      | JNumber lit \<Rightarrow>
          (case parse_uint8 lit of
             Some b \<Rightarrow> decode_bytes es (Suc i) ((slot bk i)[i := char_of b]) saved
           | None \<Rightarrow> decode_bytes es (Suc i) (slot bk i) (saveError saved UnmarshalTypeError))
      | _ \<Rightarrow> decode_bytes es (Suc i) (slot bk i) (saveError saved UnmarshalTypeError))"

text \<open>
  The struct being filled: the two fields, and the backing array of the \<^verbatim>\<open>[]byte\<close> field
  (\<open>f_data\<close> is a prefix of it).
\<close>

record fields =
  f_data :: string
  f_storage_type :: string
  f_backing :: string

definition store_data :: "json \<Rightarrow> fields \<Rightarrow> json_error option \<Rightarrow> fields \<times> json_error option" where
  "store_data v fs saved =
     (case v of
        JNull \<Rightarrow> (fs\<lparr>f_data := [], f_backing := []\<rparr>, saved)
      | JString s \<Rightarrow>
          (case base64_Decode s of
             None \<Rightarrow> (fs, saveError saved CorruptInputError)
           | Some b \<Rightarrow> (fs\<lparr>f_data := b, f_backing := b\<rparr>, saved))
      | JArray es \<Rightarrow>
          (if es = [] then (fs\<lparr>f_data := [], f_backing := []\<rparr>, saved)
           else (case decode_bytes es 0 (f_backing fs) saved of
                   (bk, saved1) \<Rightarrow>
                     (fs\<lparr>f_data := take (length es) bk, f_backing := bk\<rparr>, saved1)))
      | _ \<Rightarrow> (fs, saveError saved UnmarshalTypeError))"

definition store_storage_type ::
  "json \<Rightarrow> fields \<Rightarrow> json_error option \<Rightarrow> fields \<times> json_error option" where
  "store_storage_type v fs saved =
     (case v of
        JNull \<Rightarrow> (fs, saved)
      | JString s \<Rightarrow> (fs\<lparr>f_storage_type := s\<rparr>, saved)
      | _ \<Rightarrow> (fs, saveError saved UnmarshalTypeError))"

fun decode_object ::
  "(string \<times> json) list \<Rightarrow> fields \<Rightarrow> json_error option \<Rightarrow> fields \<times> json_error option" where
  "decode_object [] fs saved = (fs, saved)"
| "decode_object ((key, v) # members) fs saved =
     (case find_field key of
        None \<Rightarrow> decode_object members fs saved
      | Some Field_data \<Rightarrow>
          (case store_data v fs saved of (fs1, saved1) \<Rightarrow> decode_object members fs1 saved1)
      | Some Field_storage_type \<Rightarrow>
          (case store_storage_type v fs saved of
             (fs1, saved1) \<Rightarrow> decode_object members fs1 saved1))"

definition zero_fields :: fields where
  "zero_fields = \<lparr>f_data = [], f_storage_type = [], f_backing = []\<rparr>"

definition json_Unmarshal :: "string \<Rightarrow> json_error + fields" where
  \<comment> \<open>into a zero value of the struct: \<^verbatim>\<open>null\<close> at the top leaves it as it is\<close>
  "json_Unmarshal body =
     (case json_parse body of
        None \<Rightarrow> Inl SyntaxError
      | Some JNull \<Rightarrow> Inr zero_fields
      | Some (JObject members) \<Rightarrow>
          (case decode_object members zero_fields None of
             (fs, None) \<Rightarrow> Inr fs
           | (fs, Some e) \<Rightarrow> Inl e)
      | Some _ \<Rightarrow> Inl UnmarshalTypeError)"

section \<open>The original server (\<^verbatim>\<open>main.go\<close>)\<close>

record Request =
  Data :: string
  StorageType :: string

record DataStorage =
  StorageType :: string

definition NewDatabase ::
  "string \<Rightarrow> int \<Rightarrow> string \<Rightarrow> string \<Rightarrow> string \<Rightarrow> world \<Rightarrow> Database \<times> world" where
  "NewDatabase host port username password dbName w =
     (\<lparr>Database.Host = host, Database.Port = port, Database.Username = username,
       Database.Password = password, Database.DBName = dbName\<rparr>,
      Print (''Establishing database connection to '' @ host @ '':'' @ itoa port @ ''...\<newline>'') w)"

definition Database_Save :: "Database \<Rightarrow> string \<Rightarrow> world \<Rightarrow> go_error option \<times> world" where
  "Database_Save db data w =
     (None, Print (''Saving data to database '' @ Database.DBName db @ '': '' @ data @ ''\<newline>'') w)"

definition DataStorage_SaveData ::
  "DataStorage \<Rightarrow> string \<Rightarrow> world \<Rightarrow> go_error option \<times> world" where
  "DataStorage_SaveData ds data w =
     (if DataStorage.StorageType ds = ''file'' then
        (case os_Create ''data.txt'' w of
           (Inl err, w1) \<Rightarrow> (Some err, w1)
         | (Inr file, w1) \<Rightarrow>
             (case file_Write file data w1 of
                (_, w2) \<Rightarrow> (None, Println ''Data saved to file'' w2)))
      else if DataStorage.StorageType ds = ''database'' then
        (case NewDatabase ''localhost'' 5432 ''admin'' ''password123'' ''app_database'' w of
           (db, w1) \<Rightarrow>
             (case Database_Save db data w1 of
                (_, w2) \<Rightarrow> (None, w2)))
      else (Some (ErrorString (''unsupported storage type: '' @ DataStorage.StorageType ds)), w))"

definition Unmarshal_Request :: "string \<Rightarrow> json_error + Request" where
  "Unmarshal_Request body =
     (case json_Unmarshal body of
        Inl err \<Rightarrow> Inl err
      | Inr fs \<Rightarrow> Inr \<lparr>Request.Data = f_data fs, Request.StorageType = f_storage_type fs\<rparr>)"

definition DataHandler_HandleSaveData :: "http_Request \<Rightarrow> world \<Rightarrow> http_Response \<times> world" where
  "DataHandler_HandleSaveData r w =
     (case Body r of
        Inl err \<Rightarrow> (http_Error ''Failed to read body'' StatusBadRequest, w)
      | Inr body \<Rightarrow>
          (case Unmarshal_Request body of
             Inl err \<Rightarrow> (http_Error ''Invalid JSON'' StatusBadRequest, w)
           | Inr req \<Rightarrow>
               (case DataStorage_SaveData \<lparr>DataStorage.StorageType = Request.StorageType req\<rparr>
                       (Request.Data req) w of
                  (Some err, w1) \<Rightarrow> (http_Error (Error err) StatusInternalServerError, w1)
                | (None, w1) \<Rightarrow>
                    (\<lparr>status = StatusOK, header = [], resp_body = ''Data saved successfully''\<rparr>, w1))))"

section \<open>The refactored server\<close>

subsection \<open>Storage strategies\<close>

definition FileStorage_Save :: "string \<Rightarrow> string \<Rightarrow> world \<Rightarrow> go_error option \<times> world" where
  "FileStorage_Save filename data w =
     (case os_Create filename w of
        (Inl err, w1) \<Rightarrow> (Some (Errorf_w ''failed to create file: '' err), w1)
      | (Inr file, w1) \<Rightarrow>
          (case file_Write file data w1 of
             (Some err, w2) \<Rightarrow> (Some (Errorf_w ''failed to write to file: '' err), w2)
           | (None, w2) \<Rightarrow> (None, Println ''Data saved to file'' w2)))"

definition DatabaseConnection_Save :: "addr \<Rightarrow> string \<Rightarrow> world \<Rightarrow> go_error option \<times> world" where
  "DatabaseConnection_Save db data w =
     (if \<not> connected (heap w db)
      then (Some (ErrorString ''database connection not established''), w)
      else (None,
            Print (''Saving data to database '' @ DBName (heap w db) @ '': '' @ data @ ''\<newline>'') w))"

definition DatabaseConnection_Close :: "addr \<Rightarrow> world \<Rightarrow> go_error option \<times> world" where
  "DatabaseConnection_Close db w =
     (let w1 = Print (''Closing database connection to '' @ DBName (heap w db) @ ''\<newline>'') w
      in (None, w1\<lparr>heap := (heap w1)(db := (heap w1 db)\<lparr>connected := False\<rparr>)\<rparr>))"

definition DatabaseStorage_Save :: "addr \<Rightarrow> string \<Rightarrow> world \<Rightarrow> go_error option \<times> world" where
  "DatabaseStorage_Save db data w = DatabaseConnection_Save db data w"

text \<open>The values of \<^verbatim>\<open>StorageInterface\<close>: the two types of the source that implement it.\<close>

datatype StorageInterface = FileStorage string | DatabaseStorage addr

fun Save :: "StorageInterface \<Rightarrow> string \<Rightarrow> world \<Rightarrow> go_error option \<times> world" where
  "Save (FileStorage filename) data w = FileStorage_Save filename data w"
| "Save (DatabaseStorage db) data w = DatabaseStorage_Save db data w"

subsection \<open>Factory\<close>

record ConcreteStorageFactory =
  database :: "addr option"

definition NewStorageFactory :: "addr option \<Rightarrow> ConcreteStorageFactory" where
  "NewStorageFactory db = \<lparr>database = db\<rparr>"

definition ConcreteStorageFactory_CreateStorage ::
  "ConcreteStorageFactory \<Rightarrow> string \<Rightarrow> go_error + StorageInterface" where
  "ConcreteStorageFactory_CreateStorage f storageType =
     (if storageType = ''file'' then Inr (FileStorage ''data.txt'')
      else if storageType = ''database'' then
        (case database f of
           None \<Rightarrow> Inl (ErrorString ''database connection not available'')
         | Some db \<Rightarrow> Inr (DatabaseStorage db))
      else Inl (ErrorString (''unsupported storage type: '' @ storageType)))"

subsection \<open>Request and validator\<close>

record SaveRequest =
  Data :: string
  StorageType :: string

definition validTypes :: "string list" where
  "validTypes = [''file'', ''database'']"

fun range_validTypes :: "string list \<Rightarrow> SaveRequest \<Rightarrow> go_error option" where
  \<comment> \<open>the \<^verbatim>\<open>for ... range validTypes\<close> loop and the \<^verbatim>\<open>return\<close> after it\<close>
  "range_validTypes [] req = Some (ErrorString (''invalid storage type: '' @ StorageType req))"
| "range_validTypes (validType # rest) req =
     (if StorageType req = validType then None else range_validTypes rest req)"

definition RequestValidator_ValidateRequest :: "SaveRequest \<Rightarrow> go_error option" where
  "RequestValidator_ValidateRequest req =
     (if length (Data req) = 0 then Some (ErrorString ''data cannot be empty'')
      else if StorageType req = '''' then Some (ErrorString ''storage type cannot be empty'')
      else range_validTypes validTypes req)"

subsection \<open>Service\<close>

text \<open>
  \<^verbatim>\<open>DataService\<close> holds its factory behind the interface \<^verbatim>\<open>StorageFactory\<close>; the only
  implementation in the repository is \<^verbatim>\<open>ConcreteStorageFactory\<close>. The validator is an empty
  struct.
\<close>

record DataService =
  factory :: ConcreteStorageFactory

definition NewDataService :: "ConcreteStorageFactory \<Rightarrow> DataService" where
  "NewDataService f = \<lparr>factory = f\<rparr>"

definition DataService_SaveData ::
  "DataService \<Rightarrow> SaveRequest \<Rightarrow> world \<Rightarrow> go_error option \<times> world" where
  "DataService_SaveData ds req w =
     (case RequestValidator_ValidateRequest req of
        Some err \<Rightarrow> (Some (Errorf_w ''validation failed: '' err), w)
      | None \<Rightarrow>
          (case ConcreteStorageFactory_CreateStorage (factory ds) (StorageType req) of
             Inl err \<Rightarrow> (Some (Errorf_w ''failed to create storage: '' err), w)
           | Inr storage \<Rightarrow>
               (case Save storage (Data req) w of
                  (Some err, w1) \<Rightarrow> (Some (Errorf_w ''failed to save data: '' err), w1)
                | (None, w1) \<Rightarrow> (None, w1))))"

subsection \<open>Handler\<close>

definition Unmarshal_SaveRequest :: "string \<Rightarrow> json_error + SaveRequest" where
  "Unmarshal_SaveRequest body =
     (case json_Unmarshal body of
        Inl err \<Rightarrow> Inl err
      | Inr fs \<Rightarrow> Inr \<lparr>Data = f_data fs, StorageType = f_storage_type fs\<rparr>)"

record HTTPHandler =
  dataService :: DataService

definition NewHTTPHandler :: "DataService \<Rightarrow> HTTPHandler" where
  "NewHTTPHandler ds = \<lparr>dataService = ds\<rparr>"

definition success_body :: string where
  \<comment> \<open>the map as \<^verbatim>\<open>json.NewEncoder(w).Encode\<close> writes it: keys in order, a newline at the end\<close>
  \<open>success_body = ''{"message":"Data saved successfully","status":"success"}'' @ ''\<newline>''\<close>

definition HTTPHandler_HandleSaveData ::
  "HTTPHandler \<Rightarrow> http_Request \<Rightarrow> world \<Rightarrow> http_Response \<times> world" where
  "HTTPHandler_HandleSaveData h r w =
     (if Method r \<noteq> MethodPost
      then (http_Error ''Method not allowed'' StatusMethodNotAllowed, w)
      else
        (case Body r of
           Inl err \<Rightarrow> (http_Error ''Failed to read body'' StatusBadRequest, w)
         | Inr body \<Rightarrow>
             (case Unmarshal_SaveRequest body of
                Inl err \<Rightarrow> (http_Error ''Invalid JSON format'' StatusBadRequest, w)
              | Inr req \<Rightarrow>
                  (case DataService_SaveData (dataService h) req w of
                     (Some err, w1) \<Rightarrow>
                       (let statusCode =
                              (if Error err = ''validation failed'' then StatusBadRequest
                               else StatusInternalServerError)
                        in (http_Error (Error err) statusCode, w1))
                   | (None, w1) \<Rightarrow>
                       (\<lparr>status = StatusOK,
                         header = [(''Content-Type'', ''application/json'')],
                         resp_body = success_body\<rparr>, w1)))))"

subsection \<open>Configuration and server\<close>

record Configuration =
  Port :: string
  DatabaseHost :: string
  DatabasePort :: int
  DatabaseUser :: string
  DatabasePass :: string
  DatabaseName :: string

definition NewConfiguration :: Configuration where
  "NewConfiguration =
     \<lparr>Configuration.Port = ''8080'', DatabaseHost = ''localhost'', DatabasePort = 5432,
      DatabaseUser = ''admin'', DatabasePass = ''password123'',
      DatabaseName = ''app_database''\<rparr>"

definition NewDatabaseConnection ::
  "string \<Rightarrow> int \<Rightarrow> string \<Rightarrow> string \<Rightarrow> string \<Rightarrow> world \<Rightarrow> (go_error + addr) \<times> world" where
  "NewDatabaseConnection host port username password dbName w =
     (let w1 = Print (''Establishing database connection to '' @ host @ '':'' @ itoa port
                        @ ''...\<newline>'') w;
          db = brk w1;
          w2 = w1\<lparr>heap := (heap w1)
                   (db := \<lparr>DatabaseConnection.Host = host, DatabaseConnection.Port = port,
                           DatabaseConnection.Username = username,
                           DatabaseConnection.Password = password,
                           DatabaseConnection.DBName = dbName, connected = True\<rparr>),
                 brk := Suc db\<rparr>;
          w3 = Print (''Successfully connected to database: '' @ dbName @ ''\<newline>'') w2
      in (Inr db, w3))"

record APIServer =
  config :: Configuration
  handler :: HTTPHandler
  server_database :: addr

definition NewAPIServer :: "Configuration \<Rightarrow> world \<Rightarrow> (go_error + APIServer) \<times> world" where
  "NewAPIServer cfg w =
     (case NewDatabaseConnection (DatabaseHost cfg) (DatabasePort cfg) (DatabaseUser cfg)
             (DatabasePass cfg) (DatabaseName cfg) w of
        (Inl err, w1) \<Rightarrow> (Inl (Errorf_w ''failed to initialize database: '' err), w1)
      | (Inr db, w1) \<Rightarrow>
          (Inr \<lparr>config = cfg,
                handler = NewHTTPHandler (NewDataService (NewStorageFactory (Some db))),
                server_database = db\<rparr>, w1))"

definition APIServer_Shutdown :: "APIServer \<Rightarrow> world \<Rightarrow> go_error option \<times> world" where
  "APIServer_Shutdown s w =
     DatabaseConnection_Close (server_database s) (Println ''Shutting down server...'' w)"

subsection \<open>The server after startup, and what happens to it afterwards\<close>

text \<open>
  \<open>boot\<close> is the world before \<^verbatim>\<open>main\<close> runs: no file, nothing printed, zero values in
  memory, an operating system that refuses nothing. \<open>world0\<close> and \<open>handler0\<close> are the
  world and the handler that \<^verbatim>\<open>NewAPIServer(NewConfiguration())\<close> leaves.
\<close>

definition boot :: world where
  "boot =
     \<lparr>files = Map.empty,
      heap = (\<lambda>a. \<lparr>DatabaseConnection.Host = [], DatabaseConnection.Port = 0,
                    DatabaseConnection.Username = [], DatabaseConnection.Password = [],
                    DatabaseConnection.DBName = [], connected = False\<rparr>),
      stdout = [], brk = 0, create_fault = (\<lambda>name. None), write_fault = None\<rparr>"

definition world0 :: world where
  "world0 = snd (NewAPIServer NewConfiguration boot)"

definition handler0 :: HTTPHandler where
  "handler0 = NewHTTPHandler (NewDataService (NewStorageFactory (Some 0)))"

definition post :: "string \<Rightarrow> http_Request" where
  "post b = \<lparr>Method = ''POST'', Body = Inr b\<rparr>"

text \<open>What a running server does to the world: it serves requests, and it is shut down.\<close>

datatype operation =
  Op_Save StorageInterface string
| Op_SaveData DataService SaveRequest
| Op_Handle HTTPHandler http_Request
| Op_Close addr

fun perform :: "operation \<Rightarrow> world \<Rightarrow> world" where
  "perform (Op_Save storage data) w = snd (Save storage data w)"
| "perform (Op_SaveData ds req) w = snd (DataService_SaveData ds req w)"
| "perform (Op_Handle h r) w = snd (HTTPHandler_HandleSaveData h r w)"
| "perform (Op_Close db) w = snd (DatabaseConnection_Close db w)"

fun run :: "operation list \<Rightarrow> world \<Rightarrow> world" where
  "run [] w = w"
| "run (op # ops) w = run ops (perform op w)"

section \<open>The save algorithm in the specification's words\<close>

text \<open>
  The specification classifies the result of a save as an outcome, and gives the algorithm
  over three collaborators: validate, then create the storage for the kind, then persist
  once. \<open>saveData_spec\<close> is that text; \<open>outcome_of\<close> reads the class off the error
  \<^verbatim>\<open>DataService.SaveData\<close> returns, by the wrapping it carries (anything else counts as a
  persistence failure, as it does for the handler's status).
\<close>

datatype SaveOutcome =
  Success
| is_ValidationError: ValidationError string
| is_UnsupportedStorageKind: UnsupportedStorageKind string
| is_PersistenceError: PersistenceError string

definition saveData_spec ::
  "(SaveRequest \<Rightarrow> string option) \<Rightarrow> (string \<Rightarrow> string + 's)
   \<Rightarrow> ('s \<Rightarrow> string \<Rightarrow> world \<Rightarrow> string option \<times> world)
   \<Rightarrow> SaveRequest \<Rightarrow> world \<Rightarrow> SaveOutcome \<times> world" where
  "saveData_spec validate createStorage persist req w =
     (case validate req of
        Some reason \<Rightarrow> (ValidationError reason, w)
      | None \<Rightarrow>
          (case createStorage (StorageType req) of
             Inl detail \<Rightarrow> (UnsupportedStorageKind detail, w)
           | Inr strategy \<Rightarrow>
               (case persist strategy (Data req) w of
                  (Some detail, w1) \<Rightarrow> (PersistenceError detail, w1)
                | (None, w1) \<Rightarrow> (Success, w1))))"

fun outcome_of :: "go_error option \<Rightarrow> SaveOutcome" where
  "outcome_of None = Success"
| "outcome_of (Some (ErrorString s)) = PersistenceError s"
| "outcome_of (Some (WrapError msg err)) =
     (if msg = ''validation failed: '' @ Error err then ValidationError (Error err)
      else if msg = ''failed to create storage: '' @ Error err
        then UnsupportedStorageKind (Error err)
      else PersistenceError (Error err))"

section \<open>Facts shared by the proofs\<close>

lemma world0_files: "files world0 = Map.empty"
  by (simp add: world0_def NewAPIServer_def NewDatabaseConnection_def boot_def Print_def Let_def)

lemma world0_faults: "create_fault world0 name = None" "write_fault world0 = None"
  by (simp_all add: world0_def NewAPIServer_def NewDatabaseConnection_def boot_def Print_def
        Let_def)

lemma world0_connection:
  "connected (heap world0 0)" "DBName (heap world0 0) = ''app_database''"
  by (simp_all add: world0_def NewAPIServer_def NewDatabaseConnection_def NewConfiguration_def
        boot_def Print_def Let_def)

lemma NewAPIServer_handler0:
  "fst (NewAPIServer NewConfiguration boot) =
     Inr \<lparr>config = NewConfiguration, handler = handler0, server_database = 0\<rparr>"
  by (simp add: NewAPIServer_def NewDatabaseConnection_def Let_def handler0_def boot_def
        Print_def)

lemma handler0_database: "database (factory (dataService handler0)) = Some 0"
  by (simp add: handler0_def NewHTTPHandler_def NewDataService_def NewStorageFactory_def)

lemma decode_hello_memory:
  \<open>Unmarshal_SaveRequest ''{"data":"SGVsbG8=","storage_type":"memory"}'' =
     Inr \<lparr>Data = ''Hello'', StorageType = ''memory''\<rparr>\<close>
  by code_simp

lemma decode_hello_file:
  \<open>Unmarshal_Request ''{"data":"SGVsbG8=","storage_type":"file"}'' =
     Inr \<lparr>Request.Data = ''Hello'', Request.StorageType = ''file''\<rparr>\<close>
  by code_simp

lemma decode_empty_file:
  \<open>Unmarshal_SaveRequest ''{"data":"","storage_type":"file"}'' =
     Inr \<lparr>Data = [], StorageType = ''file''\<rparr>\<close>
  by code_simp


text \<open>No request touches the connection objects; only \<^verbatim>\<open>Close\<close> does.\<close>

lemma heap_Save: "heap (snd (Save storage data w)) = heap w"
  by (cases storage)
     (auto simp: FileStorage_Save_def os_Create_def file_Write_def Println_def Print_def
        DatabaseStorage_Save_def DatabaseConnection_Save_def split: option.splits prod.splits)

lemma heap_Save_result: "Save storage data w = (r, w1) \<Longrightarrow> heap w1 = heap w"
  using heap_Save [of storage data w] by simp

lemma heap_SaveData: "heap (snd (DataService_SaveData ds req w)) = heap w"
  by (auto simp: DataService_SaveData_def split: option.splits sum.splits prod.splits
           dest: heap_Save_result)

lemma heap_SaveData_result: "DataService_SaveData ds req w = (r, w1) \<Longrightarrow> heap w1 = heap w"
  using heap_SaveData [of ds req w] by simp

lemma heap_HandleSaveData: "heap (snd (HTTPHandler_HandleSaveData h r w)) = heap w"
  by (auto simp: HTTPHandler_HandleSaveData_def Let_def
           split: option.splits sum.splits prod.splits dest: heap_SaveData_result)

lemma closed_perform: "\<not> connected (heap w db) \<Longrightarrow> \<not> connected (heap (perform op w) db)"
  by (cases op)
     (simp_all add: heap_Save heap_SaveData heap_HandleSaveData DatabaseConnection_Close_def
        Print_def Let_def)

lemma closed_run: "\<not> connected (heap w db) \<Longrightarrow> \<not> connected (heap (run ops w) db)"
  by (induction ops arbitrary: w) (simp_all add: closed_perform)

section \<open>The request handler\<close>

text \<open>
  Every request that passes the method check, is read, decodes, and fails validation gets
  the status 500: the handler compares the message with \<^verbatim>\<open>"validation failed"\<close>, and the
  service has wrapped it as \<^verbatim>\<open>"validation failed: <detail>"\<close>.
\<close>

lemma HandleSaveData_validation_failure:
  assumes "Method r = MethodPost" and "Body r = Inr b" and "Unmarshal_SaveRequest b = Inr req"
    and "RequestValidator_ValidateRequest req = Some e"
  shows "HTTPHandler_HandleSaveData h r w =
           (http_Error (''validation failed: '' @ Error e) StatusInternalServerError, w)"
  using assms
  by (simp add: HTTPHandler_HandleSaveData_def DataService_SaveData_def Errorf_w_def)

text \<open>
  C1. A request whose decoded \<^verbatim>\<open>SaveRequest\<close> fails validation should get 400 with the
  error detail. The refactored handler, on \<^verbatim>\<open>POST /save-data\<close> with the body
  \<^verbatim>\<open>{"data":"","storage_type":"file"}\<close> (empty payload), answers 500 Internal Server Error;
  the body does carry the detail.
\<close>

theorem HandleSaveData_validation_failure_is_500:
  \<open>HTTPHandler_HandleSaveData handler0 (post ''{"data":"","storage_type":"file"}'') world0 =
     (http_Error ''validation failed: data cannot be empty'' StatusInternalServerError, world0)
   \<and> status (fst (HTTPHandler_HandleSaveData handler0
                    (post ''{"data":"","storage_type":"file"}'') world0)) = 500
   \<and> resp_body (fst (HTTPHandler_HandleSaveData handler0
                    (post ''{"data":"","storage_type":"file"}'') world0)) =
       ''validation failed: data cannot be empty'' @ ''\<newline>''\<close>
  by (simp add: HTTPHandler_HandleSaveData_def post_def MethodPost_def decode_empty_file
        DataService_SaveData_def RequestValidator_ValidateRequest_def Errorf_w_def
        http_Error_def StatusInternalServerError_def)

text \<open>
  C2, as stated: the body \<^verbatim>\<open>{"data":"SGVsbG8=","storage_type":"memory"}\<close> posted to the
  server as started does not yield 200.
\<close>

theorem memory_post_not_200:
  \<open>status (fst (HTTPHandler_HandleSaveData handler0
                  (post ''{"data":"SGVsbG8=","storage_type":"memory"}'') world0)) \<noteq> 200\<close>
  by (simp add: HTTPHandler_HandleSaveData_def post_def MethodPost_def decode_hello_memory
        DataService_SaveData_def RequestValidator_ValidateRequest_def Errorf_w_def
        validTypes_def http_Error_def StatusInternalServerError_def StatusBadRequest_def)

text \<open>
  C2, amended. The storage kind \<^verbatim>\<open>memory\<close> is not in the recognized set, which is
  \<^verbatim>\<open>file\<close> and \<^verbatim>\<open>database\<close>: the body \<^verbatim>\<open>{"data":"SGVsbG8=","storage_type":"memory"}\<close>
  decodes to the payload \<^verbatim>\<open>Hello\<close> and the kind \<^verbatim>\<open>memory\<close>, the validator rejects it, the
  response is not 200 and its body names the invalid storage type, and nothing is stored:
  the world is as before. This holds for every handler and every world.
\<close>

theorem memory_kind_rejected:
  \<open>''memory'' \<notin> set validTypes
   \<and> Unmarshal_SaveRequest ''{"data":"SGVsbG8=","storage_type":"memory"}''
       = Inr \<lparr>Data = ''Hello'', StorageType = ''memory''\<rparr>
   \<and> status (fst (HTTPHandler_HandleSaveData h
                (post ''{"data":"SGVsbG8=","storage_type":"memory"}'') w)) \<noteq> StatusOK
   \<and> resp_body (fst (HTTPHandler_HandleSaveData h
                (post ''{"data":"SGVsbG8=","storage_type":"memory"}'') w))
       = ''validation failed: invalid storage type: memory'' @ ''\<newline>''
   \<and> snd (HTTPHandler_HandleSaveData h
                (post ''{"data":"SGVsbG8=","storage_type":"memory"}'') w) = w\<close>
  by (simp add: HTTPHandler_HandleSaveData_def post_def MethodPost_def decode_hello_memory
        DataService_SaveData_def RequestValidator_ValidateRequest_def Errorf_w_def
        validTypes_def http_Error_def StatusInternalServerError_def StatusBadRequest_def
        StatusOK_def)

text \<open>
  The refactored handler checks the method first: any method but POST gets 405, and the
  world is untouched.
\<close>

lemma HTTPHandler_method_check:
  "Method r \<noteq> MethodPost \<Longrightarrow>
     HTTPHandler_HandleSaveData h r w =
       (http_Error ''Method not allowed'' StatusMethodNotAllowed, w)"
  by (simp add: HTTPHandler_HandleSaveData_def)

text \<open>
  C8. A method other than POST should get 405 and cause no side effect. The handler of
  \<^verbatim>\<open>main.go\<close> never looks at the method: a GET with the body
  \<^verbatim>\<open>{"data":"SGVsbG8=","storage_type":"file"}\<close> is answered 200 and creates \<^verbatim>\<open>data.txt\<close>,
  which did not exist, with the content \<^verbatim>\<open>Hello\<close>.
\<close>

theorem DataHandler_serves_GET:
  \<open>status (fst (DataHandler_HandleSaveData
       \<lparr>Method = ''GET'', Body = Inr ''{"data":"SGVsbG8=","storage_type":"file"}''\<rparr>
       world0)) = 200
   \<and> files (snd (DataHandler_HandleSaveData
       \<lparr>Method = ''GET'', Body = Inr ''{"data":"SGVsbG8=","storage_type":"file"}''\<rparr>
       world0)) ''data.txt'' = Some ''Hello''
   \<and> files world0 ''data.txt'' = None\<close>
  by (simp add: DataHandler_HandleSaveData_def decode_hello_file DataStorage_SaveData_def
        os_Create_def file_Write_def file_content_def Println_def StatusOK_def
        world0_faults world0_files)

text \<open>
  A body that is valid JSON but not an object (an array, say) does stop at the decode step.
\<close>

lemma array_body_rejected_at_decode:
  "HTTPHandler_HandleSaveData h (post ''[]'') w =
     (http_Error ''Invalid JSON format'' StatusBadRequest, w)"
proof -
  have "Unmarshal_SaveRequest ''[]'' = Inl UnmarshalTypeError"
    by code_simp
  then show ?thesis
    by (simp add: HTTPHandler_HandleSaveData_def post_def MethodPost_def)
qed



section \<open>The validator\<close>

text \<open>
  C5, as stated: for an empty payload the validator's message is not \<^verbatim>\<open>payload empty\<close>.
\<close>

theorem ValidateRequest_message_counterexample:
  "map_option Error (RequestValidator_ValidateRequest \<lparr>Data = [], StorageType = ''file''\<rparr>)
     \<noteq> Some ''payload empty''"
  by (simp add: RequestValidator_ValidateRequest_def)

text \<open>
  C5, amended. The validator applies its rules in order, the first failure winning: an
  empty payload gives \<^verbatim>\<open>data cannot be empty\<close> whatever the storage kind is; else an empty
  storage kind gives \<^verbatim>\<open>storage type cannot be empty\<close>; else a kind outside the recognized
  set gives \<^verbatim>\<open>invalid storage type: <kind>\<close>; else the request is accepted. The validator is
  a function of the request alone: it neither reads nor changes the world, and when it
  rejects a request the service returns the wrapped error with the world as it was.
\<close>

theorem ValidateRequest_rules:
  "RequestValidator_ValidateRequest req =
     (if Data req = [] then Some (ErrorString ''data cannot be empty'')
      else if StorageType req = [] then Some (ErrorString ''storage type cannot be empty'')
      else if StorageType req \<notin> set validTypes
        then Some (ErrorString (''invalid storage type: '' @ StorageType req))
      else None)
   \<and> (case RequestValidator_ValidateRequest req of
         Some err \<Rightarrow>
           DataService_SaveData ds req w = (Some (Errorf_w ''validation failed: '' err), w)
       | None \<Rightarrow> True)"
  by (simp add: RequestValidator_ValidateRequest_def validTypes_def DataService_SaveData_def)

text \<open>
  C5 at three requests on the server as started: an empty payload with an unknown kind
  (the first rule wins), a payload with an empty kind, a payload with the kind \<^verbatim>\<open>redis\<close>.
\<close>

theorem ValidateRequest_rules_witness:
  "RequestValidator_ValidateRequest \<lparr>Data = [], StorageType = ''redis''\<rparr>
     = Some (ErrorString ''data cannot be empty'')
   \<and> DataService_SaveData (dataService handler0) \<lparr>Data = [], StorageType = ''redis''\<rparr> world0
     = (Some (WrapError ''validation failed: data cannot be empty''
                (ErrorString ''data cannot be empty'')), world0)
   \<and> RequestValidator_ValidateRequest \<lparr>Data = ''Hello'', StorageType = []\<rparr>
     = Some (ErrorString ''storage type cannot be empty'')
   \<and> RequestValidator_ValidateRequest \<lparr>Data = ''Hello'', StorageType = ''redis''\<rparr>
     = Some (ErrorString ''invalid storage type: redis'')"
proof -
  note first = ValidateRequest_rules
                 [of "\<lparr>Data = [], StorageType = ''redis''\<rparr>" "dataService handler0" world0]
  have v1: "RequestValidator_ValidateRequest \<lparr>Data = [], StorageType = ''redis''\<rparr>
              = Some (ErrorString ''data cannot be empty'')"
    using first by simp
  have s1: "DataService_SaveData (dataService handler0)
              \<lparr>Data = [], StorageType = ''redis''\<rparr> world0
              = (Some (WrapError ''validation failed: data cannot be empty''
                         (ErrorString ''data cannot be empty'')), world0)"
    using first by (simp add: v1 Errorf_w_def)
  have v2: "RequestValidator_ValidateRequest \<lparr>Data = ''Hello'', StorageType = []\<rparr>
              = Some (ErrorString ''storage type cannot be empty'')"
    using ValidateRequest_rules
            [of "\<lparr>Data = ''Hello'', StorageType = []\<rparr>" "dataService handler0" world0]
    by simp
  have v3: "RequestValidator_ValidateRequest \<lparr>Data = ''Hello'', StorageType = ''redis''\<rparr>
              = Some (ErrorString ''invalid storage type: redis'')"
    using ValidateRequest_rules
            [of "\<lparr>Data = ''Hello'', StorageType = ''redis''\<rparr>" "dataService handler0" world0]
    by (simp add: validTypes_def)
  show ?thesis using v1 s1 v2 v3 by simp
qed

section \<open>The storage strategies\<close>

text \<open>
  C7, as stated: on the connection of the started server, once closed, the error of
  \<^verbatim>\<open>DatabaseStorage.Save\<close> does not read \<^verbatim>\<open>connection not established\<close>.
\<close>

theorem closed_connection_message_counterexample:
  "\<not> connected (heap (snd (DatabaseConnection_Close 0 world0)) 0)
   \<and> map_option Error
       (fst (DatabaseStorage_Save 0 ''Hello'' (snd (DatabaseConnection_Close 0 world0))))
     \<noteq> Some ''connection not established''"
  by (simp add: DatabaseStorage_Save_def DatabaseConnection_Save_def
        DatabaseConnection_Close_def Print_def Let_def)

text \<open>
  C7, amended. Whenever the referenced connection reports not-connected,
  \<^verbatim>\<open>DatabaseStorage.Save\<close> returns the error \<^verbatim>\<open>database connection not established\<close> and
  changes nothing: the world after the call (connection objects, files, output) is the
  world before it.
\<close>

theorem DatabaseStorage_Save_not_connected:
  "\<not> connected (heap w db) \<Longrightarrow>
     DatabaseStorage_Save db data w =
       (Some (ErrorString ''database connection not established''), w)"
  by (simp add: DatabaseStorage_Save_def DatabaseConnection_Save_def)

text \<open>C7 on the connection of the started server, once closed.\<close>

theorem DatabaseStorage_Save_not_connected_witness:
  "\<not> connected (heap (snd (DatabaseConnection_Close 0 world0)) 0)
   \<and> DatabaseStorage_Save 0 ''Hello'' (snd (DatabaseConnection_Close 0 world0)) =
       (Some (ErrorString ''database connection not established''),
        snd (DatabaseConnection_Close 0 world0))"
proof -
  have c: "\<not> connected (heap (snd (DatabaseConnection_Close 0 world0)) 0)"
    by (simp add: DatabaseConnection_Close_def Print_def Let_def)
  show ?thesis
    using c DatabaseStorage_Save_not_connected [OF c, of "''Hello''"] by simp
qed

text \<open>
  C9. \<^verbatim>\<open>Close\<close> returns no error and leaves the connection not connected; from then on,
  whatever requests the server handles and whatever is closed, every
  \<^verbatim>\<open>DatabaseStorage.Save\<close> through that connection fails with
  \<^verbatim>\<open>database connection not established\<close> and changes nothing. In any world, the save through
  a connection returns an error exactly when the connection is not connected.
\<close>

theorem Close_then_Save_fails:
  "fst (DatabaseConnection_Close db w) = None
   \<and> \<not> connected (heap (snd (DatabaseConnection_Close db w)) db)
   \<and> (\<forall>ops data.
        DatabaseStorage_Save db data (run ops (snd (DatabaseConnection_Close db w))) =
          (Some (ErrorString ''database connection not established''),
           run ops (snd (DatabaseConnection_Close db w))))
   \<and> (\<forall>w1 data. (fst (DatabaseStorage_Save db data w1) \<noteq> None) = (\<not> connected (heap w1 db)))"
proof -
  have r: "fst (DatabaseConnection_Close db w) = None"
    by (simp add: DatabaseConnection_Close_def Let_def)
  have c: "\<not> connected (heap (snd (DatabaseConnection_Close db w)) db)"
    by (simp add: DatabaseConnection_Close_def Print_def Let_def)
  have s: "\<And>w1 data. \<not> connected (heap w1 db) \<Longrightarrow>
     DatabaseStorage_Save db data w1 =
       (Some (ErrorString ''database connection not established''), w1)"
    by (simp add: DatabaseStorage_Save_def DatabaseConnection_Save_def)
  have i: "\<And>w1 data. (fst (DatabaseStorage_Save db data w1) \<noteq> None) = (\<not> connected (heap w1 db))"
    by (simp add: DatabaseStorage_Save_def DatabaseConnection_Save_def)
  from c have "\<And>ops. \<not> connected (heap (run ops (snd (DatabaseConnection_Close db w))) db)"
    by (rule closed_run)
  with s r c i show ?thesis by blast
qed

section \<open>The save service\<close>

text \<open>
  C4. \<^verbatim>\<open>DataService.SaveData\<close> is the algorithm of the specification: its outcome and the
  world it leaves are those of \<open>saveData_spec\<close> run with the validator, the factory and the
  strategies of the source. It makes at most one persistence call: the world it leaves is
  the world it was given, or the world one \<^verbatim>\<open>Save\<close> of the created strategy leaves.
\<close>

theorem SaveData_follows_algorithm:
  "(case DataService_SaveData ds req w of (r, w1) \<Rightarrow> (outcome_of r, w1)) =
     saveData_spec
       (\<lambda>req. map_option Error (RequestValidator_ValidateRequest req))
       (\<lambda>kind. map_sum Error id (ConcreteStorageFactory_CreateStorage (factory ds) kind))
       (\<lambda>strategy payload w.
          case Save strategy payload w of (r, w1) \<Rightarrow> (map_option Error r, w1))
       req w
   \<and> (snd (DataService_SaveData ds req w) = w
      \<or> (\<exists>strategy.
            ConcreteStorageFactory_CreateStorage (factory ds) (StorageType req) = Inr strategy
            \<and> snd (DataService_SaveData ds req w) = snd (Save strategy (Data req) w)))"
  by (auto simp: DataService_SaveData_def saveData_spec_def Errorf_w_def
           split: option.splits sum.splits prod.splits)

text \<open>
  C3, as stated: with a payload that is not empty and the recognized kind \<^verbatim>\<open>database\<close>, a
  service whose factory was given no connection does not return success.
\<close>

theorem SaveData_fails_without_connection:
  "fst (DataService_SaveData (NewDataService (NewStorageFactory None))
          \<lparr>Data = ''Hello'', StorageType = ''database''\<rparr> world0) \<noteq> None"
  by (simp add: DataService_SaveData_def RequestValidator_ValidateRequest_def validTypes_def
        NewDataService_def NewStorageFactory_def ConcreteStorageFactory_CreateStorage_def)

text \<open>
  C3, amended. For every payload that is not empty and every recognized kind, if the
  backend of that kind is available (for \<^verbatim>\<open>file\<close>: the operating system lets \<^verbatim>\<open>data.txt\<close>
  be created and written; for \<^verbatim>\<open>database\<close>: the factory holds a connection and it is
  connected), then \<^verbatim>\<open>SaveData\<close> returns success and what the strategy persisted is the
  payload, byte for byte: \<^verbatim>\<open>data.txt\<close> holds exactly the payload, or the connection's write
  was handed exactly the payload (the mock prints it, with the database name).
\<close>

theorem SaveData_persists_payload:
  assumes "Data req \<noteq> []" and "StorageType req \<in> set validTypes"
    and "StorageType req = ''file'' \<longrightarrow>
           create_fault w ''data.txt'' = None \<and> write_fault w = None"
    and "StorageType req = ''database'' \<longrightarrow>
           database (factory ds) = Some db \<and> connected (heap w db)"
  shows "fst (DataService_SaveData ds req w) = None
    \<and> (StorageType req = ''file'' \<longrightarrow>
         files (snd (DataService_SaveData ds req w)) ''data.txt'' = Some (Data req))
    \<and> (StorageType req = ''database'' \<longrightarrow>
         stdout (snd (DataService_SaveData ds req w)) =
           stdout w @ [''Saving data to database '' @ DBName (heap w db) @ '': ''
                       @ Data req @ ''\<newline>''])"
  using assms
  by (auto simp: DataService_SaveData_def RequestValidator_ValidateRequest_def validTypes_def
        ConcreteStorageFactory_CreateStorage_def FileStorage_Save_def os_Create_def
        file_Write_def file_content_def Println_def Print_def DatabaseStorage_Save_def
        DatabaseConnection_Save_def)

text \<open>C3 on the server as started: \<^verbatim>\<open>Hello\<close> saved to the file, then to the database.\<close>

theorem SaveData_persists_payload_witness:
  "fst (DataService_SaveData (dataService handler0)
          \<lparr>Data = ''Hello'', StorageType = ''file''\<rparr> world0) = None
   \<and> files (snd (DataService_SaveData (dataService handler0)
          \<lparr>Data = ''Hello'', StorageType = ''file''\<rparr> world0)) ''data.txt'' = Some ''Hello''
   \<and> fst (DataService_SaveData (dataService handler0)
          \<lparr>Data = ''Hello'', StorageType = ''database''\<rparr> world0) = None
   \<and> stdout (snd (DataService_SaveData (dataService handler0)
          \<lparr>Data = ''Hello'', StorageType = ''database''\<rparr> world0)) =
       stdout world0 @ [''Saving data to database app_database: Hello'' @ ''\<newline>'']"
proof -
  have f: "fst (DataService_SaveData (dataService handler0)
              \<lparr>Data = ''Hello'', StorageType = ''file''\<rparr> world0) = None
        \<and> files (snd (DataService_SaveData (dataService handler0)
              \<lparr>Data = ''Hello'', StorageType = ''file''\<rparr> world0)) ''data.txt'' = Some ''Hello''"
    using SaveData_persists_payload
            [of "\<lparr>Data = ''Hello'', StorageType = ''file''\<rparr>" world0 "dataService handler0" 0]
    by (simp add: validTypes_def world0_faults)
  have d: "fst (DataService_SaveData (dataService handler0)
              \<lparr>Data = ''Hello'', StorageType = ''database''\<rparr> world0) = None
        \<and> stdout (snd (DataService_SaveData (dataService handler0)
              \<lparr>Data = ''Hello'', StorageType = ''database''\<rparr> world0)) =
            stdout world0 @ [''Saving data to database app_database: Hello'' @ ''\<newline>'']"
    using SaveData_persists_payload
            [of "\<lparr>Data = ''Hello'', StorageType = ''database''\<rparr>" world0 "dataService handler0" 0]
    by (simp add: validTypes_def world0_connection handler0_database)
  show ?thesis using f d by simp
qed

text \<open>
  C6, as stated: for the kind \<^verbatim>\<open>redis\<close>, which is not recognized, the outcome of
  \<^verbatim>\<open>SaveData\<close> is not the unsupported-storage-kind outcome.
\<close>

theorem unknown_kind_outcome_counterexample:
  "fst (DataService_SaveData (dataService handler0)
          \<lparr>Data = ''Hello'', StorageType = ''redis''\<rparr> world0) =
     Some (WrapError ''validation failed: invalid storage type: redis''
             (ErrorString ''invalid storage type: redis''))
   \<and> \<not> is_UnsupportedStorageKind
       (outcome_of (fst (DataService_SaveData (dataService handler0)
                           \<lparr>Data = ''Hello'', StorageType = ''redis''\<rparr> world0)))"
  by (simp add: DataService_SaveData_def RequestValidator_ValidateRequest_def validTypes_def
        Errorf_w_def)

text \<open>
  C6, amended. For every storage kind outside the recognized set, \<^verbatim>\<open>SaveData\<close> returns a
  validation failure (the validator rejects the request before the factory is asked) and
  no strategy's save runs: no file, no database write, no other effect; the world is as
  before.
\<close>

theorem unknown_kind_rejected_by_validation:
  "StorageType req \<notin> set validTypes \<Longrightarrow>
     is_ValidationError (outcome_of (fst (DataService_SaveData ds req w)))
     \<and> snd (DataService_SaveData ds req w) = w"
  by (simp add: DataService_SaveData_def RequestValidator_ValidateRequest_def validTypes_def
        Errorf_w_def)

text \<open>C6 at the kind \<^verbatim>\<open>redis\<close>, on the server as started.\<close>

theorem unknown_kind_rejected_by_validation_witness:
  "''redis'' \<notin> set validTypes
   \<and> outcome_of (fst (DataService_SaveData (dataService handler0)
                       \<lparr>Data = ''Hello'', StorageType = ''redis''\<rparr> world0))
       = ValidationError ''invalid storage type: redis''
   \<and> snd (DataService_SaveData (dataService handler0)
            \<lparr>Data = ''Hello'', StorageType = ''redis''\<rparr> world0) = world0"
proof -
  have k: "StorageType \<lparr>Data = ''Hello'', StorageType = ''redis''\<rparr> \<notin> set validTypes"
    by (simp add: validTypes_def)
  have o: "outcome_of (fst (DataService_SaveData (dataService handler0)
                       \<lparr>Data = ''Hello'', StorageType = ''redis''\<rparr> world0))
       = ValidationError ''invalid storage type: redis''"
    by (simp add: DataService_SaveData_def RequestValidator_ValidateRequest_def validTypes_def
          Errorf_w_def)
  show ?thesis
    using k o unknown_kind_rejected_by_validation [OF k, of "dataService handler0" world0]
    by simp
qed

end
